theory Spec2Isabelle
  imports Complex_Main "HOL-Library.Word"
begin

unbundle bit_operations_syntax

section \<open>The gumble client: version packing, handshake and connection establishment\<close>

text \<open>
  A shallow embedding of \<^verbatim>\<open>gumble/client.go\<close> and \<^verbatim>\<open>gumble/config.go\<close>.
  Go strings are byte strings (\<open>string\<close>), \<open>uint32\<close> is \<open>32 word\<close>, a pointer that may
  be nil is an \<open>option\<close>, a Go \<open>error\<close> is a value of the datatype \<open>error\<close>, and what
  \<open>DialWithDialer\<close> does to the outside world (goroutines started, messages written,
  the transport closed) is the list of events it returns.
\<close>

subsection \<open>Reading runes: \<^verbatim>\<open>utf8.DecodeRuneInString\<close> and the scanner's \<^verbatim>\<open>getRune\<close>\<close>

type_synonym rune = nat

definition RuneError :: rune where
  "RuneError = 0xFFFD"

definition cont_byte :: "nat \<Rightarrow> bool" where
  "cont_byte b = (0x80 \<le> b \<and> b \<le> 0xBF)"

text \<open>
  The accept ranges of the second byte of a three-byte and of a four-byte sequence
  (\<^verbatim>\<open>acceptRanges\<close> of package utf8): they exclude overlong forms, surrogates and
  code points above U+10FFFF.
\<close>

definition second_lo :: "nat \<Rightarrow> nat" where
  "second_lo b0 = (if b0 = 0xE0 then 0xA0 else if b0 = 0xF0 then 0x90 else 0x80)"

definition second_hi :: "nat \<Rightarrow> nat" where
  "second_hi b0 = (if b0 = 0xED then 0x9F else if b0 = 0xF4 then 0x8F else 0xBF)"

text \<open>The rune at the head of a byte sequence and its width; an invalid or truncated
  encoding is \<open>RuneError\<close> of width 1.\<close>

fun DecodeRune :: "nat list \<Rightarrow> rune \<times> nat" where
  "DecodeRune [] = (RuneError, 0)"
| "DecodeRune (b0 # bs) =
     (if b0 < 0x80 then (b0, 1)
      else if 0xC2 \<le> b0 \<and> b0 \<le> 0xDF then
        (case bs of
           b1 # _ \<Rightarrow>
             if cont_byte b1 then ((b0 - 0xC0) * 64 + (b1 - 0x80), 2) else (RuneError, 1)
         | _ \<Rightarrow> (RuneError, 1))
      else if 0xE0 \<le> b0 \<and> b0 \<le> 0xEF then
        (case bs of
           b1 # b2 # _ \<Rightarrow>
             if second_lo b0 \<le> b1 \<and> b1 \<le> second_hi b0 \<and> cont_byte b2
             then (((b0 - 0xE0) * 64 + (b1 - 0x80)) * 64 + (b2 - 0x80), 3)
             else (RuneError, 1)
         | _ \<Rightarrow> (RuneError, 1))
      else if 0xF0 \<le> b0 \<and> b0 \<le> 0xF4 then
        (case bs of
           b1 # b2 # b3 # _ \<Rightarrow>
             if second_lo b0 \<le> b1 \<and> b1 \<le> second_hi b0 \<and> cont_byte b2 \<and> cont_byte b3
             then ((((b0 - 0xF0) * 64 + (b1 - 0x80)) * 64 + (b2 - 0x80)) * 64 + (b3 - 0x80), 4)
             else (RuneError, 1)
         | _ \<Rightarrow> (RuneError, 1))
      else (RuneError, 1))"

text \<open>\<^verbatim>\<open>ss.getRune\<close>: the next rune and the input after it; \<open>None\<close> is end of input.\<close>

definition getRune :: "string \<Rightarrow> (rune \<times> string) option" where
  "getRune s =
     (if s = [] then None
      else let (r, w) = DecodeRune (map of_char s) in Some (r, drop w s))"

text \<open>\<^verbatim>\<open>isSpace\<close> of package fmt, with its table of ranges.\<close>

definition space :: "(nat \<times> nat) list" where
  "space =
     [(0x0009, 0x000d), (0x0020, 0x0020), (0x0085, 0x0085), (0x00a0, 0x00a0),
      (0x1680, 0x1680), (0x2000, 0x200a), (0x2028, 0x2029), (0x202f, 0x202f),
      (0x205f, 0x205f), (0x3000, 0x3000)]"

fun in_ranges :: "(nat \<times> nat) list \<Rightarrow> nat \<Rightarrow> bool" where
  "in_ranges [] rx = False"
| "in_ranges ((lo, hi) # rngs) rx =
     (if rx < lo then False else if rx \<le> hi then True else in_ranges rngs rx)"

definition isSpace :: "rune \<Rightarrow> bool" where
  "isSpace r = (if r \<ge> 2 ^ 16 then False else in_ranges space r)"

subsection \<open>\<^verbatim>\<open>fmt.Sscanf\<close> at the format \<^verbatim>\<open>"%d.%d.%d"\<close> with \<^verbatim>\<open>*uint32\<close> operands\<close>

text \<open>
  Every failure inside the scanner is a panic that \<^verbatim>\<open>errorHandler\<close> recovers into the
  error result of \<^verbatim>\<open>Sscanf\<close>; here it is the \<open>Inl\<close> branch.
\<close>

datatype scan_error =
    UnexpectedNewline
  | EOF
  | ErrUnexpectedEOF
  | ExpectedInteger
  | ErrSyntax
  | ErrRange
  | IntegerOverflow
  | InputDoesNotMatchFormat
  | TooManyOperands

lemma getRune_shorter: "getRune s = Some (r, rest) \<Longrightarrow> length rest < length s"
proof -
  assume h: "getRune s = Some (r, rest)"
  then obtain c cs where s: "s = c # cs"
    by (cases s) (simp_all add: getRune_def)
  have "0 < snd (DecodeRune (map of_char (c # cs)))"
    by (auto split: list.splits)
  with h s show ?thesis
    by (auto simp: getRune_def split: prod.splits)
qed

text \<open>
  \<^verbatim>\<open>ss.SkipSpace\<close> with \<^verbatim>\<open>nlIsSpace = false\<close>, as \<^verbatim>\<open>Sscanf\<close> sets it: spaces are
  skipped, a newline is an error.
\<close>

function SkipSpace :: "string \<Rightarrow> scan_error + string" where
  "SkipSpace s =
     (case getRune s of
        None \<Rightarrow> Inr s
      | Some (r, rest) \<Rightarrow>
          if r = 0x0D \<and> (case getRune rest of Some (r', _) \<Rightarrow> r' = 0x0A | None \<Rightarrow> False)
          then SkipSpace rest
          else if r = 0x0A then Inl UnexpectedNewline
          else if isSpace r then SkipSpace rest
          else Inr s)"
  by pat_completeness auto
termination
  by (relation "measure length") (auto dest: getRune_shorter)

declare SkipSpace.simps [simp del]

text \<open>\<^verbatim>\<open>decimalDigits + "_"\<close>, the runes \<^verbatim>\<open>getBase\<close> gives \<^verbatim>\<open>scanNumber\<close> for the verb \<^verbatim>\<open>d\<close>.\<close>

definition decimalDigits_underscore :: string where
  "decimalDigits_underscore = ''0123456789_''"

text \<open>The loop \<^verbatim>\<open>for s.accept(digits) {}\<close>: the token read so far, then the input.\<close>

function accept_loop :: "string \<Rightarrow> string \<Rightarrow> string \<Rightarrow> string \<times> string" where
  "accept_loop ok buf s =
     (case getRune s of
        None \<Rightarrow> (buf, s)
      | Some (r, rest) \<Rightarrow>
          if r \<in> set (map of_char ok) then accept_loop ok (buf @ take (length s - length rest) s) rest
          else (buf, s))"
  by pat_completeness auto
termination
  by (relation "measure (\<lambda>(ok, buf, s). length s)") (auto dest: getRune_shorter)

declare accept_loop.simps [simp del]

definition scanNumber :: "string \<Rightarrow> string \<Rightarrow> scan_error + (string \<times> string)" where
  "scanNumber digits s =
     (case getRune s of
        None \<Rightarrow> Inl EOF
      | Some (r, rest) \<Rightarrow>
          if r \<in> set (map of_char digits)
          then Inr (accept_loop digits (take (length s - length rest) s) rest)
          else Inl ExpectedInteger)"

text \<open>
  \<^verbatim>\<open>strconv.ParseUint(tok, 10, 64)\<close>: base 10 admits no underscore, and a value beyond
  64 bits is a range error. \<open>n\<close> is a \<open>uint64\<close>; the two overflow tests of the source
  are the tests below on the unbounded value.
\<close>

definition maxUint64 :: nat where
  "maxUint64 = 2 ^ 64 - 1"

fun ParseUint_loop :: "nat \<Rightarrow> string \<Rightarrow> scan_error + nat" where
  "ParseUint_loop n [] = Inr n"
| "ParseUint_loop n (c # cs) =
     (if (of_char c :: nat) < 0x30 \<or> 0x39 < (of_char c :: nat) then Inl ErrSyntax
      else if n \<ge> maxUint64 div 10 + 1 then Inl ErrRange
      else if n * 10 + (of_char c - 0x30) > maxUint64 then Inl ErrRange
      else ParseUint_loop (n * 10 + (of_char c - 0x30)) cs)"

definition ParseUint :: "string \<Rightarrow> scan_error + nat" where
  "ParseUint tok = (if tok = [] then Inl ErrSyntax else ParseUint_loop 0 tok)"

text \<open>\<^verbatim>\<open>ss.scanUint(verb, bitSize)\<close> for the verb \<^verbatim>\<open>d\<close>: no sign is accepted.\<close>

definition scanUint :: "nat \<Rightarrow> string \<Rightarrow> scan_error + (nat \<times> string)" where
  "scanUint bitSize s =
     (case SkipSpace s of
        Inl e \<Rightarrow> Inl e
      | Inr s1 \<Rightarrow>
          (case getRune s1 of
             None \<Rightarrow> Inl EOF
           | Some _ \<Rightarrow>
               (case scanNumber decimalDigits_underscore s1 of
                  Inl e \<Rightarrow> Inl e
                | Inr (tok, s2) \<Rightarrow>
                    (case ParseUint tok of
                       Inl e \<Rightarrow> Inl e
                     | Inr i \<Rightarrow>
                         if i mod 2 ^ bitSize \<noteq> i then Inl IntegerOverflow
                         else Inr (i, s2)))))"

text \<open>
  \<^verbatim>\<open>ss.doScanf\<close> on a format of verbs \<^verbatim>\<open>%d\<close> and literal runes. The operands
  stored so far are the accumulator; its length is the count \<^verbatim>\<open>Sscanf\<close> returns.
\<close>

datatype fmt_item = Verb_d | Lit char

fun doScanf :: "fmt_item list \<Rightarrow> string \<Rightarrow> 32 word list \<Rightarrow> 32 word list \<times> scan_error option" where
  "doScanf [] s a = (a, None)"
| "doScanf (Lit c # fs) s a =
     (case getRune s of
        None \<Rightarrow> (a, Some ErrUnexpectedEOF)
      | Some (r, rest) \<Rightarrow>
          if r = of_char c then doScanf fs rest a else (a, Some InputDoesNotMatchFormat))"
| "doScanf (Verb_d # fs) s a =
     (case SkipSpace s of
        Inl e \<Rightarrow> (a, Some e)
      | Inr s1 \<Rightarrow>
          (case scanUint 32 s1 of
             Inl e \<Rightarrow> (a, Some e)
           | Inr (v, s2) \<Rightarrow> doScanf fs s2 (a @ [of_nat v])))"

text \<open>
  \<^verbatim>\<open>n, err := fmt.Sscanf(s, "%d.%d.%d", &maj, &min, &pat)\<close>: the count, the three
  variables (zero where nothing was stored) and the error.
\<close>

definition Sscanf_d_d_d :: "string \<Rightarrow> nat \<times> 32 word \<times> 32 word \<times> 32 word \<times> scan_error option" where
  "Sscanf_d_d_d s =
     (let (a, err) = doScanf [Verb_d, Lit CHR ''.'', Verb_d, Lit CHR ''.'', Verb_d] s [];
          err' = (if err = None \<and> length a < 3 then Some TooManyOperands else err)
      in (length a, (a @ [0, 0, 0]) ! 0, (a @ [0, 0, 0]) ! 1, (a @ [0, 0, 0]) ! 2, err'))"

subsection \<open>Errors and \<^verbatim>\<open>packSemver\<close>\<close>

text \<open>
  Modelled from the spec: the type \<^verbatim>\<open>RejectError\<close> is declared outside the two source
  files; the spec describes the Rejection Result as a reason code and a human-readable
  text.
\<close>

record RejectError =
  Type :: nat
  Reason :: string

text \<open>
  The values of Go's \<open>error\<close> interface that occur: the error of \<^verbatim>\<open>tls.DialWithDialer\<close>
  (opaque, named by its text), \<^verbatim>\<open>errors.New(msg)\<close>, \<^verbatim>\<open>fmt.Errorf("invalid semver %q", s)\<close>
  (named by its argument), and a \<^verbatim>\<open>*RejectError\<close>.
\<close>

datatype error =
    DialError string
  | ErrorString string
  | InvalidSemver string
  | Reject RejectError

definition packSemver :: "string \<Rightarrow> error + 32 word" where
  "packSemver s =
     (case Sscanf_d_d_d s of
        (n, maj, mnr, pat, err) \<Rightarrow>
          if err \<noteq> None \<or> n \<noteq> 3 \<or> maj > 0xFFFF \<or> mnr > 0xFF \<or> pat > 0xFF
          then Inl (InvalidSemver s)
          else Inr (push_bit 16 maj OR push_bit 8 mnr OR pat))"


text \<open>
  The spec's unpacking of a version word: \<open>(word>>16, (word>>8)&0xFF, word&0xFF)\<close>.
\<close>

definition unpackSemver :: "32 word \<Rightarrow> nat \<times> nat \<times> nat" where
  "unpackSemver w = (unat (drop_bit 16 w), unat (drop_bit 8 w AND 0xFF), unat (w AND 0xFF))"

text \<open>
  The decimal numeral of a natural number, as \<^verbatim>\<open>strconv.Itoa\<close> writes it: the strings
  \<open>MAJOR\<close>, \<open>MINOR\<close> and \<open>PATCH\<close> of a version string.
\<close>

definition digit_char :: "nat \<Rightarrow> char" where
  "digit_char d = char_of (0x30 + d)"

fun decimal :: "nat \<Rightarrow> string" where
  "decimal n = (if n < 10 then [digit_char n] else decimal (n div 10) @ [digit_char (n mod 10)])"

declare decimal.simps [simp del]

definition semver_string :: "nat \<Rightarrow> nat \<Rightarrow> nat \<Rightarrow> string" where
  "semver_string major minor patch = decimal major @ ''.'' @ decimal minor @ ''.'' @ decimal patch"

subsection \<open>Connection state and configuration\<close>

text \<open>\<^verbatim>\<open>type State int\<close> with its three constants, numbered by \<^verbatim>\<open>iota\<close>.\<close>

type_synonym State = int

definition StateDisconnected :: State where
  "StateDisconnected = 0"

definition StateConnected :: State where
  "StateConnected = 1"

definition StateSynced :: State where
  "StateSynced = 2"

text \<open>\<^verbatim>\<open>const ClientVersion = 1<<16 | 3<<8 | 0\<close>, used as a \<open>uint32\<close>.\<close>

definition ClientVersion :: "32 word" where
  "ClientVersion = push_bit 16 1 OR push_bit 8 3 OR 0"

record VersionOverride =
  Release :: string
  OS :: string
  OSVersion :: string
  Semver :: string
  VersionUint32 :: "32 word option"

text \<open>
  \<^verbatim>\<open>Config\<close>; the listener registries are left out, nothing in \<^verbatim>\<open>DialWithDialer\<close>
  reads them. \<^verbatim>\<open>AccessTokens\<close> is a \<^verbatim>\<open>[]string\<close>, a \<^verbatim>\<open>time.Duration\<close> an \<open>int64\<close> of
  nanoseconds.
\<close>

record Config =
  Username :: string
  Password :: string
  VersionOverride :: "VersionOverride option"
  Tokens :: "string list"
  AudioInterval :: int
  AudioDataBytes :: int

subsection \<open>Time, the dialer and the transport\<close>

text \<open>
  A \<^verbatim>\<open>time.Time\<close> is the number of nanoseconds since Go's zero instant, so that
  \<^verbatim>\<open>IsZero\<close> is \<open>t = 0\<close>, \<^verbatim>\<open>Add\<close> is \<open>+\<close> and \<^verbatim>\<open>Before\<close> is \<open><\<close>; \<^verbatim>\<open>t.Sub(u)\<close> is a
  \<^verbatim>\<open>Duration\<close> and saturates at the ends of \<open>int64\<close>.
\<close>

type_synonym Time = int
type_synonym Duration = int

definition minDuration :: Duration where
  "minDuration = - (2 ^ 63)"

definition maxDuration :: Duration where
  "maxDuration = 2 ^ 63 - 1"

definition Sub :: "Time \<Rightarrow> Time \<Rightarrow> Duration" where
  "Sub t u =
     (if t - u < minDuration then minDuration
      else if maxDuration < t - u then maxDuration
      else t - u)"

text \<open>The two fields of \<^verbatim>\<open>net.Dialer\<close> that \<^verbatim>\<open>DialWithDialer\<close> reads itself.\<close>

record Dialer =
  Timeout :: Duration
  Deadline :: Time

datatype tls_Conn = TLSConn nat

datatype tls_Config = TLSConfig nat

datatype Conn = NewConn tls_Conn

datatype AudioCodec = AudioCodec nat

text \<open>
  The messages of package \<^verbatim>\<open>MumbleProto\<close> that \<^verbatim>\<open>DialWithDialer\<close> builds, with the fields
  it sets.
\<close>

datatype proto_message =
    Version (version: "32 word") (release: string) (os: string) (os_version: string)
  | Authenticate (username: string) (password: string) (opus: bool) (tokens: "string list")

text \<open>
  \<^verbatim>\<open>Client\<close>, with the fields that \<^verbatim>\<open>DialWithDialer\<close> and \<^verbatim>\<open>State\<close> use. The
  collections (\<^verbatim>\<open>Users\<close>, \<^verbatim>\<open>Channels\<close>, \<^verbatim>\<open>permissions\<close>) are created empty and the two
  channels fresh; nothing below reads them. The record holds what \<^verbatim>\<open>DialWithDialer\<close>
  itself stored: the object is shared with \<^verbatim>\<open>readRoutine\<close>, which stores to \<open>state\<close>
  on its own.
\<close>

record Client =
  Conn :: Conn
  Config :: "Config option"
  state :: "32 word"

text \<open>\<^verbatim>\<open>func (c *Client) State() State\<close>: the atomic load, converted.\<close>

definition State :: "Client \<Rightarrow> State" where
  "State c = uint (state c)"

subsection \<open>The environment of a call\<close>

text \<open>
  What \<^verbatim>\<open>DialWithDialer\<close> takes from outside its arguments: the clock, the result of
  \<^verbatim>\<open>tls.DialWithDialer\<close>, \<^verbatim>\<open>runtime.GOOS\<close> and \<^verbatim>\<open>runtime.GOARCH\<close>, the codec registry
  behind \<^verbatim>\<open>getAudioCodec\<close> with the constant \<^verbatim>\<open>audioCodecIDOpus\<close> (both declared
  outside the two source files), and what the read goroutine does on the channel
  \<^verbatim>\<open>client.connect\<close>: \<open>None\<close> if it never sends, else the time in nanoseconds after
  the \<^verbatim>\<open>select\<close> is entered at which its send is ready and the value it sends (\<open>None\<close>
  is the nil pointer). \<open>tie\<close> resolves the \<^verbatim>\<open>select\<close> when both cases are ready at the
  same instant, where Go chooses at random: \<open>True\<close> takes the timer.
\<close>

record env =
  now :: Time
  tls_DialWithDialer :: "Dialer \<Rightarrow> string \<Rightarrow> string \<Rightarrow> tls_Config option \<Rightarrow> error + tls_Conn"
  GOOS :: string
  GOARCH :: string
  getAudioCodec :: "nat \<Rightarrow> AudioCodec option"
  audioCodecIDOpus :: nat
  connect :: "(nat \<times> RejectError option) option"
  tie :: bool

datatype event =
    Go_readRoutine
  | WriteProto proto_message
  | Go_pingRoutine
  | NewTimer Duration
  | Conn_Close
  | Timer_Stop

text \<open>
  How a call ends: it returns its results, it panics (a nil pointer dereference), or it
  blocks forever.
\<close>

datatype 'a outcome = Returns 'a | Panics | Blocks

subsection \<open>\<^verbatim>\<open>DialWithDialer\<close>\<close>

text \<open>
  The initial Version packet (lines 141 to 171): the four local variables take their
  defaults and are then overwritten field by field from the override, if there is one.
\<close>

definition versionPacket :: "env \<Rightarrow> Config option \<Rightarrow> proto_message" where
  "versionPacket e config =
     (let release = ''gumble'';
          osStr = GOOS e;
          osVer = GOARCH e;
          verU32 = ClientVersion
      in case config of
           None \<Rightarrow> Version verU32 release osStr osVer
         | Some cfg \<Rightarrow>
             (case VersionOverride cfg of
                None \<Rightarrow> Version verU32 release osStr osVer
              | Some vo \<Rightarrow>
                  let release = (if Release vo \<noteq> [] then Release vo else release);
                      osStr = (if OS vo \<noteq> [] then OS vo else osStr);
                      osVer = (if OSVersion vo \<noteq> [] then OSVersion vo else osVer);
                      verU32 =
                        (case VersionUint32 vo of
                           Some v \<Rightarrow> v
                         | None \<Rightarrow>
                             if Semver vo \<noteq> [] then
                               (case packSemver (Semver vo) of
                                  Inr packed \<Rightarrow> packed
                                | Inl err \<Rightarrow> verU32)
                             else verU32)
                  in Version verU32 release osStr osVer))"

text \<open>
  The Authenticate packet (lines 173 to 178). \<^verbatim>\<open>&client.Config.Username\<close> dereferences
  \<^verbatim>\<open>client.Config\<close>: with a nil config there is no packet but a panic.
\<close>

definition authenticationPacket :: "env \<Rightarrow> Config option \<Rightarrow> proto_message option" where
  "authenticationPacket e config =
     (case config of
        None \<Rightarrow> None
      | Some cfg \<Rightarrow>
          Some (Authenticate (Username cfg) (Password cfg)
                  (getAudioCodec e (audioCodecIDOpus e) \<noteq> None) (Tokens cfg)))"

text \<open>
  The block that computes the deadline (lines 187 to 196), then the duration of the
  timer, if one is made (lines 197 to 201).
\<close>

definition dial_deadline :: "Dialer \<Rightarrow> Time \<Rightarrow> Time" where
  "dial_deadline dialer start =
     (let deadline = 0;
          deadline = (if Deadline dialer \<noteq> 0 then Deadline dialer else deadline);
          deadline =
            (if Timeout dialer > 0 then
               (let diff = start + Timeout dialer
                in if deadline = 0 \<or> diff < deadline then diff else deadline)
             else deadline)
      in deadline)"

definition dial_timer :: "Dialer \<Rightarrow> Time \<Rightarrow> Duration option" where
  "dial_timer dialer start =
     (let deadline = dial_deadline dialer start
      in if deadline \<noteq> 0 then Some (Sub deadline start) else None)"

text \<open>
  The \<^verbatim>\<open>select\<close> (lines 204 to 214). Without a timer the channel \<open>timeout\<close> is nil and
  its case never fires. A timer of duration \<open>d\<close> is ready \<open>max d 0\<close> after it is made,
  which is when the \<^verbatim>\<open>select\<close> is entered.
\<close>

datatype selected = TimerFired | Received "RejectError option" | Never

definition select :: "env \<Rightarrow> Duration option \<Rightarrow> selected" where
  "select e timeout =
     (case timeout of
        None \<Rightarrow>
          (case connect e of
             None \<Rightarrow> Never
           | Some (t, err) \<Rightarrow> Received err)
      | Some d \<Rightarrow>
          (case connect e of
             None \<Rightarrow> TimerFired
           | Some (t, err) \<Rightarrow>
               if max d 0 < int t then TimerFired
               else if int t < max d 0 then Received err
               else if tie e then TimerFired else Received err))"

text \<open>The struct literal of lines 123 to 135.\<close>

definition newClient :: "tls_Conn \<Rightarrow> Config option \<Rightarrow> Client" where
  "newClient conn config =
     \<lparr>Conn = NewConn conn, Config = config, state = word_of_int StateConnected\<rparr>"

text \<open>
  \<^verbatim>\<open>DialWithDialer\<close>: the events in the order of the statements, and how the call ends.
  The results of the two \<^verbatim>\<open>WriteProto\<close> calls are discarded by the source. The deferred
  \<^verbatim>\<open>timer.Stop()\<close> runs when the function returns, after the transport is closed.
\<close>

definition DialWithDialer ::
  "env \<Rightarrow> Dialer \<Rightarrow> string \<Rightarrow> Config option \<Rightarrow> tls_Config option
     \<Rightarrow> event list \<times> (Client option \<times> error option) outcome" where
  "DialWithDialer e dialer addr config tlsConfig =
     (let start = now e
      in case tls_DialWithDialer e dialer ''tcp'' addr tlsConfig of
           Inl err \<Rightarrow> ([], Returns (None, Some err))
         | Inr conn \<Rightarrow>
             let client = newClient conn config;
                 ev = [Go_readRoutine];
                 version = versionPacket e (Config client)
             in case authenticationPacket e (Config client) of
                  None \<Rightarrow> (ev, Panics)
                | Some authentication \<Rightarrow>
                    let ev = ev @ [WriteProto version, WriteProto authentication,
                                   Go_pingRoutine];
                        timeout = dial_timer dialer start;
                        ev = ev @ (case timeout of None \<Rightarrow> [] | Some d \<Rightarrow> [NewTimer d]);
                        deferred = (case timeout of None \<Rightarrow> [] | Some d \<Rightarrow> [Timer_Stop])
                    in case select e timeout of
                         TimerFired \<Rightarrow>
                           (ev @ [Conn_Close] @ deferred,
                            Returns (None, Some (ErrorString ''gumble: synchronization timeout'')))
                       | Received (Some err) \<Rightarrow>
                           (ev @ [Conn_Close] @ deferred, Returns (None, Some (Reject err)))
                       | Received None \<Rightarrow> (ev @ deferred, Returns (Some client, None))
                       | Never \<Rightarrow> (ev, Blocks))"

text \<open>The messages written to the transport, in order.\<close>

fun written :: "event list \<Rightarrow> proto_message list" where
  "written [] = []"
| "written (WriteProto m # evs) = m # written evs"
| "written (_ # evs) = written evs"

subsection \<open>The read loop and the ping window\<close>

text \<open>
  Modelled from the spec: \<^verbatim>\<open>readRoutine\<close> is started by \<^verbatim>\<open>DialWithDialer\<close> but defined
  outside the two source files. Following the spec's Read/Dispatch Loop, a server-sync
  message that is the first one moves the state from Connected to Synced and signals
  success; a reject message moves the state to Disconnected, signals the rejection if
  the connection had not yet synced, and ends the loop; the end of the frames is a read
  error, which moves the state to Disconnected and is reported as a failure before
  sync; every other message leaves the state alone. \<open>stored\<close> lists the values written
  to the state field, in order.
\<close>

datatype frame = ServerSync | RejectFrame RejectError | OtherFrame

datatype connect_signal = SignalSynced | SignalRejected RejectError | SignalReadError

record read_loop =
  cur :: "32 word"
  stored :: "32 word list"
  signal :: "connect_signal option"

text \<open>Modelled from the spec: the loop state when \<^verbatim>\<open>DialWithDialer\<close> starts the loop.\<close>

definition loop_start :: read_loop where
  "loop_start = \<lparr>cur = word_of_int StateConnected, stored = [], signal = None\<rparr>"

text \<open>Modelled from the spec: the Read/Dispatch Loop over the frames the transport yields.\<close>

fun readRoutine :: "read_loop \<Rightarrow> frame list \<Rightarrow> read_loop" where
  "readRoutine l [] =
     l\<lparr>cur := word_of_int StateDisconnected,
       stored := stored l @ [word_of_int StateDisconnected],
       signal := (if cur l = word_of_int StateConnected then Some SignalReadError else signal l)\<rparr>"
| "readRoutine l (ServerSync # fs) =
     (if cur l = word_of_int StateConnected
      then readRoutine (l\<lparr>cur := word_of_int StateSynced,
                           stored := stored l @ [word_of_int StateSynced],
                           signal := Some SignalSynced\<rparr>) fs
      else readRoutine l fs)"
| "readRoutine l (RejectFrame r # fs) =
     l\<lparr>cur := word_of_int StateDisconnected,
       stored := stored l @ [word_of_int StateDisconnected],
       signal := (if cur l = word_of_int StateConnected then Some (SignalRejected r) else signal l)\<rparr>"
| "readRoutine l (OtherFrame # fs) = readRoutine l fs"

text \<open>
  Modelled from the spec: the code that inserts a round-trip sample is outside the two
  source files, which only declare the window \<^verbatim>\<open>tcpPingTimes [12]float32\<close> and the
  published \<^verbatim>\<open>tcpPingAvg\<close>. Following the spec's Ping Sample Window, a sample is appended
  and, once the window is full, the oldest one is evicted; the mean is the sum of the
  window over its length. Samples are real numbers here: the rounding of \<open>float32\<close> is
  not modelled.
\<close>

definition tcpPingTimes_len :: nat where
  "tcpPingTimes_len = 12"

text \<open>Modelled from the spec: one insertion into the Ping Sample Window.\<close>

definition insert_sample :: "real list \<Rightarrow> real \<Rightarrow> real list" where
  "insert_sample w s = (if length w < tcpPingTimes_len then w @ [s] else tl w @ [s])"

text \<open>Modelled from the spec: the window after a sequence of samples, from an empty one.\<close>

definition ping_window :: "real list \<Rightarrow> real list" where
  "ping_window ss = foldl insert_sample [] ss"

text \<open>Modelled from the spec: the running mean over the current window.\<close>

definition ping_mean :: "real list \<Rightarrow> real" where
  "ping_mean w = sum_list w / of_nat (length w)"

subsection \<open>Auxiliary notions for the proofs\<close>

definition is_digit :: "char \<Rightarrow> bool" where
  "is_digit c = (0x30 \<le> (of_char c :: nat) \<and> (of_char c :: nat) \<le> 0x39)"

text \<open>What may follow a number in a version string: the end of the input or a dot.\<close>

definition stops_number :: "string \<Rightarrow> bool" where
  "stops_number s = (case s of [] \<Rightarrow> True | c # _ \<Rightarrow> c = CHR ''.'')"

text \<open>One round of the loop of \<^verbatim>\<open>ParseUint\<close>.\<close>

definition ParseUint_step :: "nat \<Rightarrow> char \<Rightarrow> scan_error + nat" where
  "ParseUint_step n c =
     (if (of_char c :: nat) < 0x30 \<or> 0x39 < (of_char c :: nat) then Inl ErrSyntax
      else if n \<ge> maxUint64 div 10 + 1 then Inl ErrRange
      else if n * 10 + (of_char c - 0x30) > maxUint64 then Inl ErrRange
      else Inr (n * 10 + (of_char c - 0x30)))"

section \<open>Scanning decimal numerals\<close>

lemma of_char_digit_char: "d < 10 \<Longrightarrow> (of_char (digit_char d) :: nat) = 0x30 + d"
  by (simp add: digit_char_def)

lemma is_digit_digit_char: "d < 10 \<Longrightarrow> is_digit (digit_char d)"
  by (simp add: is_digit_def of_char_digit_char)

lemma decimal_digits: "\<forall>c \<in> set (decimal n). is_digit c"
proof (induction n rule: decimal.induct)
  case (1 n)
  show ?case
  proof (cases "n < 10")
    case True
    then show ?thesis by (simp add: decimal.simps [of n] is_digit_digit_char)
  next
    case False
    with 1 show ?thesis by (simp add: decimal.simps [of n] is_digit_digit_char)
  qed
qed

lemma decimal_nonempty: "decimal n \<noteq> []"
  by (subst decimal.simps) simp

lemma getRune_ascii: "(of_char c :: nat) < 0x80 \<Longrightarrow> getRune (c # cs) = Some (of_char c, cs)"
  by (simp add: getRune_def)


lemma digit_rune_accepted:
  "is_digit c \<Longrightarrow> (of_char c :: nat) \<in> set (map of_char decimalDigits_underscore)"
proof -
  assume "is_digit c"
  then have "(of_char c :: nat) \<in> {0x30, 0x31, 0x32, 0x33, 0x34, 0x35, 0x36, 0x37, 0x38, 0x39}"
    unfolding is_digit_def by (simp; arith)
  then show ?thesis
    by (auto simp: decimalDigits_underscore_def)
qed

lemma getRune_digit: "is_digit c \<Longrightarrow> getRune (c # cs) = Some (of_char c, cs)"
  by (rule getRune_ascii) (simp add: is_digit_def)

lemma SkipSpace_digit: "is_digit c \<Longrightarrow> SkipSpace (c # cs) = Inr (c # cs)"
  by (subst SkipSpace.simps)
     (auto simp: getRune_digit is_digit_def isSpace_def space_def)

lemma accept_loop_stop:
  "stops_number rest \<Longrightarrow> accept_loop decimalDigits_underscore buf rest = (buf, rest)"
  by (subst accept_loop.simps)
     (auto simp: stops_number_def getRune_ascii decimalDigits_underscore_def getRune_def
           split: list.splits)

lemma accept_loop_digits:
  "\<forall>c \<in> set ds. is_digit c \<Longrightarrow> stops_number rest \<Longrightarrow>
     accept_loop decimalDigits_underscore buf (ds @ rest) = (buf @ ds, rest)"
proof (induction ds arbitrary: buf)
  case Nil
  then show ?case by (simp add: accept_loop_stop)
next
  case (Cons c ds)
  then have c: "is_digit c" by simp
  have "accept_loop decimalDigits_underscore buf ((c # ds) @ rest)
          = accept_loop decimalDigits_underscore (buf @ [c]) (ds @ rest)"
    using digit_rune_accepted [OF c]
    by (subst accept_loop.simps) (simp add: getRune_digit [OF c])
  with Cons show ?case by simp
qed

lemma scanNumber_digits:
  "ds \<noteq> [] \<Longrightarrow> \<forall>c \<in> set ds. is_digit c \<Longrightarrow> stops_number rest \<Longrightarrow>
     scanNumber decimalDigits_underscore (ds @ rest) = Inr (ds, rest)"
proof -
  assume ne: "ds \<noteq> []" and dg: "\<forall>c \<in> set ds. is_digit c" and st: "stops_number rest"
  from ne obtain c cs where ds: "ds = c # cs" by (cases ds) auto
  with dg have c: "is_digit c" and cs: "\<forall>c \<in> set cs. is_digit c" by simp_all
  show ?thesis
    using accept_loop_digits [OF cs st, of "[c]"] digit_rune_accepted [OF c]
    by (simp add: ds scanNumber_def getRune_digit [OF c])
qed

lemma ParseUint_loop_snoc:
  "ParseUint_loop n (cs @ [c]) =
     (case ParseUint_loop n cs of Inl e \<Rightarrow> Inl e | Inr v \<Rightarrow> ParseUint_step v c)"
  by (induction cs arbitrary: n) (simp_all add: ParseUint_step_def)

lemma ParseUint_loop_decimal:
  "ParseUint_loop 0 (decimal n) = (if n \<le> maxUint64 then Inr n else Inl ErrRange)"
proof (induction n rule: decimal.induct)
  case (1 n)
  show ?case
  proof (cases "n < 10")
    case True
    then show ?thesis
      by (simp add: decimal.simps [of n] of_char_digit_char maxUint64_def)
  next
    case False
    have step: "ParseUint_loop 0 (decimal n) =
        (case ParseUint_loop 0 (decimal (n div 10)) of
           Inl e \<Rightarrow> Inl e | Inr v \<Rightarrow> ParseUint_step v (digit_char (n mod 10)))"
      using False by (simp add: decimal.simps [of n] ParseUint_loop_snoc)
    have ih: "ParseUint_loop 0 (decimal (n div 10)) =
        (if n div 10 \<le> maxUint64 then Inr (n div 10) else Inl ErrRange)"
      using 1 False by simp
    have d: "(of_char (digit_char (n mod 10)) :: nat) = 0x30 + n mod 10"
      by (simp add: of_char_digit_char)
    show ?thesis
      unfolding step ih ParseUint_step_def d
      by (simp add: maxUint64_def; arith)
  qed
qed

lemma ParseUint_decimal:
  "ParseUint (decimal n) = (if n \<le> maxUint64 then Inr n else Inl ErrRange)"
  by (simp add: ParseUint_def decimal_nonempty ParseUint_loop_decimal)

lemma scanUint_decimal:
  assumes "stops_number rest"
  shows "scanUint 32 (decimal n @ rest) =
     (if n < 2 ^ 32 then Inr (n, rest)
      else if n \<le> maxUint64 then Inl IntegerOverflow else Inl ErrRange)"
proof -
  obtain c cs where dn: "decimal n = c # cs"
    using decimal_nonempty [of n] by (cases "decimal n") auto
  have c: "is_digit c"
    using decimal_digits [of n] dn by simp
  have sk: "SkipSpace (decimal n @ rest) = Inr (decimal n @ rest)"
    by (simp add: dn SkipSpace_digit [OF c])
  have gr: "getRune (decimal n @ rest) = Some (of_char c, cs @ rest)"
    by (simp add: dn getRune_digit [OF c])
  have sn: "scanNumber decimalDigits_underscore (decimal n @ rest) = Inr (decimal n, rest)"
    using decimal_nonempty decimal_digits assms by (rule scanNumber_digits)
  have md: "n mod 4294967296 = n \<longleftrightarrow> n < 4294967296"
    by (metis mod_less mod_less_divisor zero_less_numeral)
  show ?thesis
    by (simp add: scanUint_def sk gr sn ParseUint_decimal maxUint64_def md)
qed

lemma doScanf_Verb_decimal:
  "stops_number rest \<Longrightarrow>
   doScanf (Verb_d # fs) (decimal n @ rest) a =
     (if n < 2 ^ 32 then doScanf fs rest (a @ [of_nat n])
      else (a, Some (if n \<le> maxUint64 then IntegerOverflow else ErrRange)))"
proof -
  assume st: "stops_number rest"
  obtain c cs where dn: "decimal n = c # cs"
    using decimal_nonempty [of n] by (cases "decimal n") auto
  have c: "is_digit c"
    using decimal_digits [of n] dn by simp
  have sk: "SkipSpace (decimal n @ rest) = Inr (decimal n @ rest)"
    by (simp add: dn SkipSpace_digit [OF c])
  show ?thesis
    by (simp add: sk scanUint_decimal [OF st])
qed

lemma doScanf_Lit_dot:
  "doScanf (Lit CHR ''.'' # fs) (CHR ''.'' # rest) a = doScanf fs rest a"
  by (simp add: getRune_ascii)

lemma stops_number_simps: "stops_number []" "stops_number (CHR ''.'' # s)"
  by (simp_all add: stops_number_def)

lemma doScanf_Verb_decimal_end:
  "doScanf (Verb_d # fs) (decimal n) a =
     (if n < 2 ^ 32 then doScanf fs [] (a @ [of_nat n])
      else (a, Some (if n \<le> maxUint64 then IntegerOverflow else ErrRange)))"
  using doScanf_Verb_decimal [of "[]" fs n a] by (simp add: stops_number_simps del: doScanf.simps)

lemmas doScanf_decimal_simps =
  doScanf_Verb_decimal doScanf_Verb_decimal_end doScanf_Lit_dot stops_number_simps

lemma Sscanf_decimal_ok:
  assumes "a < 2 ^ 32" "b < 2 ^ 32" "c < 2 ^ 32"
  shows "Sscanf_d_d_d (decimal a @ ''.'' @ decimal b @ ''.'' @ decimal c)
           = (3, of_nat a, of_nat b, of_nat c, None)"
  using assms
  by (simp add: Sscanf_d_d_d_def doScanf_decimal_simps del: doScanf.simps(2,3))

lemma Sscanf_decimal_bad:
  assumes "\<not> (a < 2 ^ 32 \<and> b < 2 ^ 32 \<and> c < 2 ^ 32)"
  shows "snd (snd (snd (snd (Sscanf_d_d_d (decimal a @ ''.'' @ decimal b @ ''.'' @ decimal c)))))
           \<noteq> None"
  using assms
  by (auto simp add: Sscanf_d_d_d_def doScanf_decimal_simps simp del: doScanf.simps(2,3))

lemma word32_of_nat_le:
  "n < 2 ^ 32 \<Longrightarrow> k < 2 ^ 32 \<Longrightarrow> (of_nat k :: 32 word) < of_nat n \<longleftrightarrow> k < n"
  by (simp add: word_less_nat_alt unat_of_nat)



lemma nat_high_bits: "n < 2 ^ k \<Longrightarrow> bit (n :: nat) m \<Longrightarrow> m < k"
proof (rule ccontr)
  assume n: "n < 2 ^ k" and bt: "bit n m" and "\<not> m < k"
  then have "(2::nat) ^ k \<le> 2 ^ m"
    by (simp add: power_increasing)
  with n have "n < 2 ^ m" by (rule less_le_trans)
  with bt show False
    by (simp add: bit_iff_odd)
qed

lemma pack_unpack:
  assumes "a \<le> 65535" "b \<le> 255" "c \<le> 255"
  shows "unpackSemver (push_bit 16 (of_nat a) OR push_bit 8 (of_nat b) OR of_nat c) = (a, b, c)"
proof -
  let ?A = "of_nat a :: 32 word" and ?B = "of_nat b :: 32 word" and ?C = "of_nat c :: 32 word"
  let ?w = "push_bit 16 ?A OR push_bit 8 ?B OR ?C"
  have a: "a < 2 ^ 16" and b: "b < 2 ^ 8" and c: "c < 2 ^ 8"
    using assms by simp_all
  note hi = nat_high_bits [OF a] nat_high_bits [OF b] nat_high_bits [OF c]
  have m: "(0xFF :: 32 word) = mask 8"
    by (simp add: mask_eq_exp_minus_1)
  have 1: "drop_bit 16 ?w = ?A"
    by (rule bit_word_eqI) (auto simp: bit_simps dest: hi)
  have 2: "drop_bit 8 ?w AND 0xFF = ?B"
    unfolding m by (rule bit_word_eqI) (auto simp: bit_simps dest: hi)
  have 3: "?w AND 0xFF = ?C"
    unfolding m by (rule bit_word_eqI) (auto simp: bit_simps dest: hi)
  show ?thesis
    unfolding unpackSemver_def 1 2 3
    using a b c by (simp add: unat_of_nat)
qed


lemma word32_less_of_nat:
  "k < 2 ^ 32 \<Longrightarrow> n < 2 ^ 32 \<Longrightarrow> (of_nat k :: 32 word) < of_nat n \<longleftrightarrow> k < n"
  by (simp add: word_less_nat_alt unat_of_nat)

lemma packSemver_decimal:
  "packSemver (semver_string a b c) =
     (if a \<le> 65535 \<and> b \<le> 255 \<and> c \<le> 255
      then Inr (push_bit 16 (of_nat a) OR push_bit 8 (of_nat b) OR of_nat c)
      else Inl (InvalidSemver (semver_string a b c)))"
proof (cases "a < 2 ^ 32 \<and> b < 2 ^ 32 \<and> c < 2 ^ 32")
  case True
  then have sc: "Sscanf_d_d_d (semver_string a b c) = (3, of_nat a, of_nat b, of_nat c, None)"
    unfolding semver_string_def using Sscanf_decimal_ok [of a b c] by blast
  have "(0xFFFF :: 32 word) < of_nat a \<longleftrightarrow> 65535 < a"
    using word32_less_of_nat [of 65535 a] True by simp
  moreover have "(0xFF :: 32 word) < of_nat b \<longleftrightarrow> 255 < b"
    using word32_less_of_nat [of 255 b] True by simp
  moreover have "(0xFF :: 32 word) < of_nat c \<longleftrightarrow> 255 < c"
    using word32_less_of_nat [of 255 c] True by simp
  ultimately show ?thesis
    by (auto simp: packSemver_def sc)
next
  case False
  then have "snd (snd (snd (snd (Sscanf_d_d_d (semver_string a b c))))) \<noteq> None"
    unfolding semver_string_def by (rule Sscanf_decimal_bad)
  then have "packSemver (semver_string a b c) = Inl (InvalidSemver (semver_string a b c))"
    by (cases "Sscanf_d_d_d (semver_string a b c)") (auto simp: packSemver_def)
  moreover have "\<not> (a \<le> 65535 \<and> b \<le> 255 \<and> c \<le> 255)"
    using False by auto
  ultimately show ?thesis by simp
qed

lemma decimal_small: "n < 10 \<Longrightarrow> decimal n = [digit_char n]"
  by (simp add: decimal.simps [of n])

section \<open>Packing a version string\<close>

text \<open>
  C4. For every version string \<open>MAJOR.MINOR.PATCH\<close> with major at most 65535 and minor
  and patch at most 255, \<open>packSemver\<close> returns \<open>major<<16 | minor<<8 | patch\<close> without
  an error, unpacking that word gives the three numbers back, and \<open>packSemver "1.3.0"\<close>
  is \<open>0x00010300\<close>.
\<close>

theorem packSemver_roundtrip:
  assumes "major \<le> 65535" and "minor \<le> 255" and "patch \<le> 255"
  shows "packSemver (semver_string major minor patch)
           = Inr (push_bit 16 (of_nat major) OR push_bit 8 (of_nat minor) OR of_nat patch)
         \<and> unpackSemver (push_bit 16 (of_nat major) OR push_bit 8 (of_nat minor) OR of_nat patch)
           = (major, minor, patch)
         \<and> packSemver ''1.3.0'' = Inr 0x00010300"
proof -
  have "semver_string 1 3 0 = ''1.3.0''"
    by code_simp
  then have "packSemver ''1.3.0'' = Inr 0x00010300"
    using packSemver_decimal [of 1 3 0] by simp
  with assms show ?thesis
    by (simp add: packSemver_decimal pack_unpack)
qed

theorem packSemver_roundtrip_witness:
  "(1::nat) \<le> 65535 \<and> (3::nat) \<le> 255 \<and> (0::nat) \<le> 255
   \<and> semver_string 1 3 0 = ''1.3.0''
   \<and> packSemver (semver_string 1 3 0) = Inr 0x00010300
   \<and> unpackSemver 0x00010300 = (1, 3, 0)"
proof -
  have s: "semver_string 1 3 0 = ''1.3.0''"
    by code_simp
  show ?thesis
    using packSemver_roundtrip [of 1 3 0] unfolding s by simp
qed


end
